theory Spec2Isabelle
  imports Complex_Main "HOL-Library.Sublist"
begin

section \<open>The adaptive benchmarking protocol of \<open>backends/backend.py\<close>\<close>

text \<open>
  The class \<open>Backend\<close> provisions a pool of tensor-sets (\<open>build_tensor\<close>), calibrates
  an iteration count, times the operator (\<open>core_perf\<close>) and emits a report (\<open>perf\<close>).

  Conventions of the embedding:
  \<^item> a raised Python exception is the \<open>Inl\<close> of a sum; the world reached when it was
    raised is kept beside it, since \<open>perf\<close> goes on after catching. Line 231 catches the
    subclasses of \<open>Exception\<close> only, so an exception outside that class
    (\<open>KeyboardInterrupt\<close>, \<open>SystemExit\<close>) is a value of its own;
  \<^item> the effects on the device, the clock and the operator are events appended to the
    \<open>trace\<close> of an explicit \<open>world\<close>;
  \<^item> what the source imports and the sources do not hold (the \<open>torch\<close> module, the
    registries of \<open>module_store\<close>, the clock, \<open>random.choice\<close>, the builtin \<open>round\<close>) is
    a field of the record \<open>env\<close>, so every theorem holds for each behaviour of these
    collaborators;
  \<^item> Python's arbitrary-precision \<open>int\<close> is \<open>int\<close>; Python's \<open>float\<close> is \<open>real\<close>, with
    exact arithmetic: the rounding of IEEE doubles is not modelled. A mixed comparison
    \<open>int > float\<close> is exact in Python as well. \<open>round(x, 2)\<close> of line 229 depends on the
    binary digits of the double \<open>x\<close>, so it is not computed here: it is a field of \<open>env\<close>.
\<close>

subsection \<open>Data\<close>

datatype exn =
    NotImplementedError
  | AttributeError
  | UnboundLocalError
  | ZeroDivisionError
  | TypeError
  | IndexError
  | Raised string
      \<comment> \<open>any other subclass of \<open>Exception\<close>, raised by a registry function or the operator\<close>
  | RaisedBase string
      \<comment> \<open>an exception outside \<open>Exception\<close>: \<open>KeyboardInterrupt\<close>, \<open>SystemExit\<close>, ...\<close>

text \<open>What \<open>except Exception\<close> catches.\<close>

definition is_exception :: "exn \<Rightarrow> bool" where
  "is_exception x = (case x of RaisedBase _ \<Rightarrow> False | _ \<Rightarrow> True)"

type_synonym tensor = nat  \<comment> \<open>an opaque handle of a device tensor\<close>

type_synonym shapes = "int list list"

datatype torch_dtype = TorchDtype string

text \<open>
  An element of what \<open>build_tensor\<close> returns. A tensor-set is the list of positional
  arguments of one call. The early return of line 163 is a tuple holding an empty
  list and two integers, so a slot may also be an \<open>int\<close> object.
\<close>

datatype slot = TensorSet "tensor list" | IntObj int

datatype report_kind = Communication | Computation

datatype event =
    DeviceSynchronize
  | Barrier
  | PerfCounterNs
  | RunOp "tensor list"   \<comment> \<open>the operator's executable was entered with these arguments\<close>
  | DelTensorList
  | EmptyCache
  | DumpReport report_kind

record world =
  trace :: "event list"
  clock_reads :: nat    \<comment> \<open>calls of \<open>time.perf_counter_ns\<close> so far\<close>
  choices :: nat        \<comment> \<open>calls of \<open>random.choice\<close> so far\<close>
  op_calls :: nat       \<comment> \<open>entries into the operator's executable so far\<close>

text \<open>
  The operator's executable: told how many calls came before and the arguments of this
  one, it returns normally (\<open>None\<close>) or raises.
\<close>

type_synonym operator = "nat \<Rightarrow> tensor list \<Rightarrow> exn option"

type_synonym compute_size_func = "shapes \<Rightarrow> torch_dtype \<Rightarrow> exn + int list"

text \<open>
  The tensor constructor, told the index of the call within the list comprehension of
  line 172, so that each slot may be a different object and each call may fail.
\<close>

type_synonym create_tensors_func =
  "nat \<Rightarrow> shapes \<Rightarrow> torch_dtype \<Rightarrow> string \<Rightarrow> exn + tensor list"

record env =
  torch_attr :: "string \<Rightarrow> torch_dtype option"  \<comment> \<open>\<open>getattr(torch, dtype)\<close>\<close>
  default_op_compute_size_registry :: "string \<rightharpoonup> compute_size_func"
  default_op_create_tensors_registry :: "string \<rightharpoonup> create_tensors_func"
  perf_counter_ns :: "nat \<Rightarrow> int"   \<comment> \<open>the value of the n-th reading of the clock\<close>
  random_draw :: "nat \<Rightarrow> nat"       \<comment> \<open>the n-th draw of the random generator\<close>
  round_2 :: "real \<Rightarrow> real"        \<comment> \<open>\<open>round(x, 2)\<close> on the double \<open>x\<close>\<close>
  torch_device_name :: string

record backend =
  op_name :: string
  iterations :: int
  op :: "operator option"     \<comment> \<open>\<open>None\<close> until \<open>get_op_instance\<close> has run\<close>
  world_size :: "int option"
  memory_limit :: int         \<comment> \<open>\<open>avail_memory // 1024**3\<close>\<close>

text \<open>
  Modelled from the spec: \<open>dump_communication_ops_report\<close> and
  \<open>dump_computation_ops_report\<close> live in \<open>backends.utils\<close>, which is not among the
  sources. The spec (section 6) describes the report as a structured record of the
  operator name, dtype, shapes, world size, latency in microseconds and an error code;
  the record below holds the arguments of the call and which of the two was called.
\<close>

record report =
  kind :: report_kind
  report_op_name :: string
  report_dtype :: torch_dtype
  report_shapes :: shapes
  report_world_size :: "int option"
  latency :: real
  error :: string

subsection \<open>Registry lookups (lines 65 to 75)\<close>

definition get_op_compute_size_func :: "env \<Rightarrow> backend \<Rightarrow> exn + compute_size_func" where
  "get_op_compute_size_func e b =
     (case default_op_compute_size_registry e (op_name b) of
        Some f \<Rightarrow> Inr f
      | None \<Rightarrow> Inl NotImplementedError)"

definition get_op_create_tensors_func :: "env \<Rightarrow> backend \<Rightarrow> exn + create_tensors_func" where
  "get_op_create_tensors_func e b =
     (case default_op_create_tensors_registry e (op_name b) of
        Some f \<Rightarrow> Inr f
      | None \<Rightarrow> Inl NotImplementedError)"

subsection \<open>The tensor provisioner: \<open>build_tensor\<close> (lines 135 to 175)\<close>

text \<open>Lines 142 to 145: with neither 4 nor 5 entries the local name stays unbound.\<close>

definition select_tensor_size :: "int list \<Rightarrow> int option" where
  "select_tensor_size result =
     (if length result = 4 then Some (result ! 1)
      else if length result = 5 then Some (result ! 4)
      else None)"

definition assume_cache_size :: int where
  "assume_cache_size = 1 * 1024 ^ 3"

definition assume_avail_bytes :: "backend \<Rightarrow> real" where
  "assume_avail_bytes b = real_of_int (memory_limit b) * 0.9 * 1024 ^ 3"

text \<open>The list of line 156.\<close>

definition build_tensor_comm_ops :: "string list" where
  "build_tensor_comm_ops =
     [''allreduce'', ''allgather'', ''reducescatter'', ''alltoall'', ''broadcast'', ''p2p'',
      ''device2host'', ''host2device'', ''hash_table'']"

text \<open>
  Lines 156 to 169 either return at once or bind \<open>max_data_cnt\<close>. The float division of
  line 169 raises when \<open>tensor_size\<close> is 0.
\<close>

datatype provision = EarlyReturn "slot list" | MaxDataCnt int

definition max_data_cnt :: "backend \<Rightarrow> int \<Rightarrow> exn + provision" where
  "max_data_cnt b tensor_size =
     (if op_name b \<in> set build_tensor_comm_ops then
        (if real_of_int tensor_size > assume_avail_bytes b then Inr (EarlyReturn [])
         else Inr (MaxDataCnt 1))
      else
        (if real_of_int tensor_size > assume_avail_bytes b then
           Inr (EarlyReturn [TensorSet [], IntObj 0, IntObj tensor_size])
         else if real_of_int (2 * tensor_size) > assume_avail_bytes b then Inr (MaxDataCnt 1)
         else if tensor_size > assume_cache_size then Inr (MaxDataCnt 2)
         else if tensor_size = 0 then Inl ZeroDivisionError
         else Inr (MaxDataCnt
                (min \<lfloor>assume_avail_bytes b / real_of_int tensor_size\<rfloor> (iterations b)))))"

text \<open>
  The list comprehension of lines 172 to 174: the calls \<open>i\<close>, \<open>i + 1\<close>, ... of the tensor
  constructor, \<open>n\<close> of them, stopping at the first that raises.
\<close>

fun create_tensor_list :: "(nat \<Rightarrow> exn + tensor list) \<Rightarrow> nat \<Rightarrow> nat \<Rightarrow> exn + slot list" where
  "create_tensor_list f i 0 = Inr []"
| "create_tensor_list f i (Suc n) =
     (case f i of
        Inl e \<Rightarrow> Inl e
      | Inr t \<Rightarrow>
          (case create_tensor_list f (Suc i) n of
             Inl e \<Rightarrow> Inl e
           | Inr rest \<Rightarrow> Inr (TensorSet t # rest)))"

definition build_tensor :: "env \<Rightarrow> backend \<Rightarrow> shapes \<Rightarrow> torch_dtype \<Rightarrow> exn + slot list" where
  "build_tensor e b input_shapes dt =
     (case get_op_compute_size_func e b of
        Inl x \<Rightarrow> Inl x
      | Inr compute_size \<Rightarrow>
     (case compute_size input_shapes dt of
        Inl x \<Rightarrow> Inl x
      | Inr result \<Rightarrow>
     (case get_op_create_tensors_func e b of
        Inl x \<Rightarrow> Inl x
      | Inr create_tensors \<Rightarrow>
     (case select_tensor_size result of
        None \<Rightarrow> Inl UnboundLocalError
      | Some tensor_size \<Rightarrow>
     (case max_data_cnt b tensor_size of
        Inl x \<Rightarrow> Inl x
      | Inr (EarlyReturn v) \<Rightarrow> Inr v
      | Inr (MaxDataCnt k) \<Rightarrow>
          create_tensor_list
            (\<lambda>i. create_tensors i input_shapes dt (torch_device_name e)) 0 (nat k))))))"

subsection \<open>Device, clock and operator\<close>

text \<open>
  The device layer is abstract in the source: each method of lines 82 to 117 raises
  \<open>NotImplementedError\<close> in \<open>Backend\<close> and is overridden by the backend in use. The model
  takes an implementation whose calls return, and records each call as an event; the
  statement \<open>del tensor_list\<close> of line 240 is an event as well.
\<close>

definition device_synchronize :: "world \<Rightarrow> world" where
  "device_synchronize w = w\<lparr>trace := trace w @ [DeviceSynchronize]\<rparr>"

definition barrier :: "world \<Rightarrow> world" where
  "barrier w = w\<lparr>trace := trace w @ [Barrier]\<rparr>"

definition empty_cache :: "world \<Rightarrow> world" where
  "empty_cache w = w\<lparr>trace := trace w @ [EmptyCache]\<rparr>"

definition del_tensor_list :: "world \<Rightarrow> world" where
  "del_tensor_list w = w\<lparr>trace := trace w @ [DelTensorList]\<rparr>"

definition time_perf_counter_ns :: "env \<Rightarrow> world \<Rightarrow> int \<times> world" where
  "time_perf_counter_ns e w =
     (perf_counter_ns e (clock_reads w),
      w\<lparr>trace := trace w @ [PerfCounterNs], clock_reads := Suc (clock_reads w)\<rparr>)"

text \<open>\<open>random.choice\<close>: it raises on an empty sequence.\<close>

definition random_choice :: "env \<Rightarrow> slot list \<Rightarrow> world \<Rightarrow> (exn + slot) \<times> world" where
  "random_choice e tensor_list w =
     (if tensor_list = [] then (Inl IndexError, w)
      else (Inr (tensor_list ! (random_draw e (choices w) mod length tensor_list)),
            w\<lparr>choices := Suc (choices w)\<rparr>))"

text \<open>
  Lines 130 to 132, \<open>operation(*inputs)\<close>: unpacking an \<open>int\<close> raises before any call, and
  so does calling \<open>None\<close>.
\<close>

definition run_operation :: "backend \<Rightarrow> slot \<Rightarrow> world \<Rightarrow> (exn + unit) \<times> world" where
  "run_operation b inputs w =
     (case inputs of
        IntObj _ \<Rightarrow> (Inl TypeError, w)
      | TensorSet args \<Rightarrow>
          (case op b of
             None \<Rightarrow> (Inl TypeError, w)
           | Some operation \<Rightarrow>
               (let w' = w\<lparr>trace := trace w @ [RunOp args], op_calls := Suc (op_calls w)\<rparr>
                in case operation (op_calls w) args of
                     Some x \<Rightarrow> (Inl x, w')
                   | None \<Rightarrow> (Inr (), w'))))"

subsection \<open>The timed execution core: \<open>core_perf\<close> (lines 178 to 188)\<close>

text \<open>
  The loop of lines 182 and 183 from index \<open>i\<close>, with \<open>n\<close> rounds left. The modulo raises
  on an empty pool.
\<close>

fun core_loop :: "backend \<Rightarrow> slot list \<Rightarrow> nat \<Rightarrow> nat \<Rightarrow> world \<Rightarrow> (exn + unit) \<times> world" where
  "core_loop b tensor_list i 0 w = (Inr (), w)"
| "core_loop b tensor_list i (Suc n) w =
     (if length tensor_list = 0 then (Inl ZeroDivisionError, w)
      else
        (case run_operation b (tensor_list ! (i mod length tensor_list)) w of
           (Inl x, w') \<Rightarrow> (Inl x, w')
         | (Inr _, w') \<Rightarrow> core_loop b tensor_list (Suc i) n w'))"

definition core_perf :: "env \<Rightarrow> backend \<Rightarrow> int \<Rightarrow> slot list \<Rightarrow> world \<Rightarrow> (exn + real) \<times> world" where
  "core_perf e b prefer_iterations tensor_list w =
     (let w1 = barrier (device_synchronize w);
          (start_time, w2) = time_perf_counter_ns e w1
      in case core_loop b tensor_list 0 (nat prefer_iterations) w2 of
           (Inl x, w3) \<Rightarrow> (Inl x, w3)
         | (Inr _, w3) \<Rightarrow>
             (let w4 = barrier (device_synchronize w3);
                  (end_time, w5) = time_perf_counter_ns e w4
              in if prefer_iterations = 0 then (Inl ZeroDivisionError, w5)
                 else (Inr (real_of_int (end_time - start_time) / 1000
                            / real_of_int prefer_iterations), w5)))"

subsection \<open>The iteration planner (lines 201 to 229)\<close>

text \<open>The loops of lines 209 and 216: \<open>n\<close> calls, each on a randomly chosen slot.\<close>

fun choice_loop :: "env \<Rightarrow> backend \<Rightarrow> slot list \<Rightarrow> nat \<Rightarrow> world \<Rightarrow> (exn + unit) \<times> world" where
  "choice_loop e b tensor_list 0 w = (Inr (), w)"
| "choice_loop e b tensor_list (Suc n) w =
     (case random_choice e tensor_list w of
        (Inl x, w1) \<Rightarrow> (Inl x, w1)
      | (Inr inputs, w1) \<Rightarrow>
          (case run_operation b inputs w1 of
             (Inl x, w2) \<Rightarrow> (Inl x, w2)
           | (Inr _, w2) \<Rightarrow> choice_loop e b tensor_list n w2))"

definition warm_iterations :: nat where
  "warm_iterations = 5"

definition test_iterations :: nat where
  "test_iterations = 5"

definition max_total_duration :: real where
  "max_total_duration = 10"

text \<open>Line 221.\<close>

definition avg_op_duration :: "int \<Rightarrow> int \<Rightarrow> real" where
  "avg_op_duration start_time end_time =
     real_of_int (end_time - start_time) / 10 ^ 9 / real test_iterations"

text \<open>Lines 224 to 227; the float division raises on a duration of 0.\<close>

definition prefer_iterations :: "real \<Rightarrow> int \<Rightarrow> exn + int" where
  "prefer_iterations avg requested =
     (if avg > max_total_duration then Inr 2
      else if avg = 0 then Inl ZeroDivisionError
      else Inr (min \<lceil>max_total_duration / avg\<rceil> requested))"

text \<open>The body of the \<open>try\<close> block, lines 201 to 229.\<close>

definition try_body :: "env \<Rightarrow> backend \<Rightarrow> slot list \<Rightarrow> world \<Rightarrow> (exn + real) \<times> world" where
  "try_body e b tensor_list w =
     (let w1 = barrier (device_synchronize w)
      in case choice_loop e b tensor_list warm_iterations w1 of
           (Inl x, w2) \<Rightarrow> (Inl x, w2)
         | (Inr _, w2) \<Rightarrow>
     (let w3 = barrier (device_synchronize w2);
          (start_time, w4) = time_perf_counter_ns e w3
      in case choice_loop e b tensor_list test_iterations w4 of
           (Inl x, w5) \<Rightarrow> (Inl x, w5)
         | (Inr _, w5) \<Rightarrow>
     (let w6 = barrier (device_synchronize w5);
          (end_time, w7) = time_perf_counter_ns e w6
      in case prefer_iterations (avg_op_duration start_time end_time) (iterations b) of
           Inl x \<Rightarrow> (Inl x, w7)
         | Inr n \<Rightarrow>
             (case core_perf e b n tensor_list w7 of
                (Inl x, w8) \<Rightarrow> (Inl x, w8)
              | (Inr v, w8) \<Rightarrow> (Inr (round_2 e v), w8)))))"

subsection \<open>The entry point: \<open>perf\<close> (lines 191 to 265)\<close>

text \<open>The list of lines 245 to 248.\<close>

definition perf_comm_ops :: "string list" where
  "perf_comm_ops =
     [''allreduce'', ''allgather'', ''reducescatter'', ''alltoall'', ''broadcast'', ''p2p'',
      ''device2host'', ''host2device'']"

text \<open>
  Lines 199 to 237. \<open>except Exception\<close> catches the values of \<open>exn\<close> that are subclasses of
  \<open>Exception\<close>; any other goes on to the caller of \<open>perf\<close>. \<open>traceback.print_exc\<close> only
  prints and is left out.
\<close>

definition measure_latency ::
  "env \<Rightarrow> backend \<Rightarrow> slot list \<Rightarrow> world \<Rightarrow> (exn + real \<times> string) \<times> world" where
  "measure_latency e b tensor_list w =
     (if length tensor_list > 0 then
        (case try_body e b tensor_list w of
           (Inr l, w') \<Rightarrow> (Inr (l, ''''), w')
         | (Inl x, w') \<Rightarrow>
             (if is_exception x then (Inr (0, ''RUN_OP_ERROR''), w') else (Inl x, w')))
      else (Inr (0, ''OOM''), w))"

text \<open>
  Lines 245 to 264: which of the two emitters is called, and with what. The lookup
  \<open>self.get_op_compute_size_func()\<close> among the arguments is made in \<open>perf\<close> below.
\<close>

definition report_kind_of :: "backend \<Rightarrow> report_kind" where
  "report_kind_of b =
     (if op_name b \<in> set perf_comm_ops then Communication else Computation)"

definition dump_report :: "backend \<Rightarrow> torch_dtype \<Rightarrow> shapes \<Rightarrow> real \<Rightarrow> string \<Rightarrow> report" where
  "dump_report b dt input_shapes lat err =
     \<lparr>kind = report_kind_of b, report_op_name = op_name b, report_dtype = dt,
      report_shapes = input_shapes,
      report_world_size = (if report_kind_of b = Communication then world_size b else None),
      latency = lat, error = err\<rparr>"

text \<open>
  Lines 191 to 265. The statements of lines 240 and 241 are not in a \<open>finally\<close>: they are
  reached only when the \<open>if\<close> of line 199 ends without an exception.
\<close>

definition perf :: "env \<Rightarrow> backend \<Rightarrow> shapes \<Rightarrow> string \<Rightarrow> world \<Rightarrow> (exn + report) \<times> world" where
  "perf e b input_shapes dtype w =
     (case torch_attr e dtype of
        None \<Rightarrow> (Inl AttributeError, w)
      | Some dt \<Rightarrow>
     (case build_tensor e b input_shapes dt of
        Inl x \<Rightarrow> (Inl x, w)
      | Inr tensor_list \<Rightarrow>
     (case measure_latency e b tensor_list w of
        (Inl x, w1) \<Rightarrow> (Inl x, w1)
      | (Inr (lat, err), w1) \<Rightarrow>
     (let w2 = empty_cache (del_tensor_list w1)
      in case get_op_compute_size_func e b of
           Inl x \<Rightarrow> (Inl x, w2)
         | Inr _ \<Rightarrow>
             (Inr (dump_report b dt input_shapes lat err),
              w2\<lparr>trace := trace w2 @ [DumpReport (report_kind_of b)]\<rparr>)))))"

subsection \<open>Concrete collaborators\<close>

text \<open>
  A byte-size function in the 4-tuple form (4 bytes read and 4 bytes written for each
  element), one whose tuple has 3 entries, a tensor constructor that gives each slot two
  fresh tensors, three operators and two clocks. \<open>nearest_hundredth\<close> stands for the
  builtin \<open>round\<close> on exact reals (a tie goes to the even neighbour); the evaluations
  below reach it at 50000000 only, which \<open>round(x, 2)\<close> returns unchanged.
\<close>

definition nearest_hundredth :: "real \<Rightarrow> real" where
  "nearest_hundredth x =
     (let y = x * 100; f = \<lfloor>y\<rfloor>; d = y - real_of_int f
      in real_of_int (if d < 1 / 2 then f
                      else if d > 1 / 2 then f + 1
                      else if even f then f else f + 1) / 100)"

definition example_compute_size :: compute_size_func where
  "example_compute_size input_shapes dt =
     (let n = sum_list (map prod_list input_shapes) in Inr [1, 8 * n, 4 * n, 4 * n])"

definition short_compute_size :: compute_size_func where
  "short_compute_size input_shapes dt = Inr [1, 8, 4]"

definition example_create_tensors :: create_tensors_func where
  "example_create_tensors i input_shapes dt device = Inr [2 * i, 2 * i + 1]"

definition example_env :: "(nat \<Rightarrow> int) \<Rightarrow> env" where
  "example_env clock =
     \<lparr>torch_attr = (\<lambda>s. if s = ''float32'' then Some (TorchDtype ''float32'') else None),
      default_op_compute_size_registry =
        [''gemm'' \<mapsto> example_compute_size, ''allreduce'' \<mapsto> example_compute_size,
         ''hash_table'' \<mapsto> example_compute_size, ''short'' \<mapsto> short_compute_size],
      default_op_create_tensors_registry =
        [''gemm'' \<mapsto> example_create_tensors, ''allreduce'' \<mapsto> example_create_tensors,
         ''hash_table'' \<mapsto> example_create_tensors, ''short'' \<mapsto> example_create_tensors],
      perf_counter_ns = clock,
      random_draw = (\<lambda>n. 0),
      round_2 = nearest_hundredth,
      torch_device_name = ''cuda''\<rparr>"

definition example_backend :: "string \<Rightarrow> int \<Rightarrow> operator option \<Rightarrow> int \<Rightarrow> backend" where
  "example_backend name n f limit =
     \<lparr>op_name = name, iterations = n, op = f, world_size = None, memory_limit = limit\<rparr>"

definition world0 :: world where
  "world0 = \<lparr>trace = [], clock_reads = 0, choices = 0, op_calls = 0\<rparr>"

definition ok_operator :: operator where
  "ok_operator j args = None"

definition failing_operator :: operator where
  "failing_operator j args = Some (Raised ''RuntimeError'')"

definition interrupted_operator :: operator where
  "interrupted_operator j args = Some (RaisedBase ''KeyboardInterrupt'')"

text \<open>Successive readings 5 ms apart, and 100 s apart.\<close>

definition ms_clock :: "nat \<Rightarrow> int" where
  "ms_clock n = int n * 5000000"

definition slow_clock :: "nat \<Rightarrow> int" where
  "slow_clock n = int n * 10 ^ 11"

section \<open>Properties\<close>

lemmas example_defs =
  example_backend_def example_env_def example_compute_size_def short_compute_size_def
  example_create_tensors_def ok_operator_def failing_operator_def interrupted_operator_def
  ms_clock_def slow_clock_def world0_def

lemmas build_tensor_defs =
  build_tensor_def get_op_compute_size_func_def get_op_create_tensors_func_def
  select_tensor_size_def max_data_cnt_def build_tensor_comm_ops_def assume_avail_bytes_def
  assume_cache_size_def

lemmas perf_defs =
  perf_def measure_latency_def try_body_def core_perf_def run_operation_def random_choice_def
  time_perf_counter_ns_def barrier_def device_synchronize_def empty_cache_def
  del_tensor_list_def prefer_iterations_def avg_op_duration_def warm_iterations_def
  test_iterations_def max_total_duration_def perf_comm_ops_def nearest_hundredth_def
  dump_report_def report_kind_of_def is_exception_def

subsection \<open>Unfolding the loops at a literal count\<close>

lemma choice_loop_numeral:
  "choice_loop e b tensor_list (numeral k) w =
     (case random_choice e tensor_list w of
        (Inl x, w1) \<Rightarrow> (Inl x, w1)
      | (Inr inputs, w1) \<Rightarrow>
          (case run_operation b inputs w1 of
             (Inl x, w2) \<Rightarrow> (Inl x, w2)
           | (Inr _, w2) \<Rightarrow> choice_loop e b tensor_list (pred_numeral k) w2))"
  by (simp add: numeral_eq_Suc)

lemma core_loop_numeral:
  "core_loop b tensor_list i (numeral k) w =
     (if length tensor_list = 0 then (Inl ZeroDivisionError, w)
      else
        (case run_operation b (tensor_list ! (i mod length tensor_list)) w of
           (Inl x, w') \<Rightarrow> (Inl x, w')
         | (Inr _, w') \<Rightarrow> core_loop b tensor_list (Suc i) (pred_numeral k) w'))"
  by (simp add: numeral_eq_Suc)

subsection \<open>Every step extends the trace; only a reading of the clock counts as one\<close>

lemma run_operation_frame:
  "run_operation b s w = (r, w') \<Longrightarrow>
     prefix (trace w) (trace w') \<and> clock_reads w' = clock_reads w"
  by (auto simp: run_operation_def Let_def split: slot.splits option.splits)

lemma random_choice_frame:
  "random_choice e pool w = (r, w') \<Longrightarrow>
     trace w' = trace w \<and> clock_reads w' = clock_reads w"
  by (auto simp: random_choice_def split: if_splits)

lemma choice_loop_frame:
  "choice_loop e b pool n w = (r, w') \<Longrightarrow>
     prefix (trace w) (trace w') \<and> clock_reads w' = clock_reads w"
proof (induction n arbitrary: w)
  case 0
  then show ?case by simp
next
  case (Suc n)
  obtain c w1 where rc: "random_choice e pool w = (c, w1)"
    by (cases "random_choice e pool w")
  note picked = random_choice_frame [OF rc]
  show ?case
  proof (cases c)
    case (Inl x)
    with Suc.prems rc picked show ?thesis by simp
  next
    case c: (Inr s)
    obtain r2 w2 where ro: "run_operation b s w1 = (r2, w2)"
      by (cases "run_operation b s w1")
    from picked run_operation_frame [OF ro]
    have step: "prefix (trace w) (trace w2)" "clock_reads w2 = clock_reads w"
      by simp_all
    show ?thesis
    proof (cases r2)
      case (Inl x)
      with Suc.prems rc c ro step show ?thesis by simp
    next
      case (Inr u)
      with Suc.prems rc c ro have "choice_loop e b pool n w2 = (r, w')" by simp
      from Suc.IH [OF this] step show ?thesis by auto
    qed
  qed
qed

lemma core_loop_frame:
  "core_loop b pool i n w = (r, w') \<Longrightarrow>
     prefix (trace w) (trace w') \<and> clock_reads w' = clock_reads w"
proof (induction n arbitrary: i w)
  case 0
  then show ?case by simp
next
  case (Suc n)
  show ?case
  proof (cases "length pool = 0")
    case True
    with Suc.prems show ?thesis by simp
  next
    case False
    obtain r2 w2 where ro: "run_operation b (pool ! (i mod length pool)) w = (r2, w2)"
      by (cases "run_operation b (pool ! (i mod length pool)) w")
    note step = run_operation_frame [OF ro]
    show ?thesis
    proof (cases r2)
      case (Inl x)
      with Suc.prems ro False step show ?thesis by simp
    next
      case (Inr u)
      with Suc.prems ro False have "core_loop b pool (Suc i) n w2 = (r, w')" by simp
      from Suc.IH [OF this] step show ?thesis by auto
    qed
  qed
qed

lemma sync_barrier_trace [simp]:
  "trace (barrier (device_synchronize w)) = trace w @ [DeviceSynchronize, Barrier]"
  "clock_reads (barrier (device_synchronize w)) = clock_reads w"
  by (simp_all add: barrier_def device_synchronize_def)

lemma core_perf_frame:
  assumes "core_perf e b n pool w = (r, w')"
  shows "prefix (trace w) (trace w')"
proof -
  let ?w2 = "snd (time_perf_counter_ns e (barrier (device_synchronize w)))"
  have p2: "prefix (trace w) (trace ?w2)"
    by (simp add: time_perf_counter_ns_def)
  obtain r3 w3 where cl: "core_loop b pool 0 (nat n) ?w2 = (r3, w3)"
    by (cases "core_loop b pool 0 (nat n) ?w2")
  from core_loop_frame [OF cl] p2 have p3: "prefix (trace w) (trace w3)" by auto
  show ?thesis
  proof (cases r3)
    case (Inl x)
    with assms cl p3 show ?thesis
      by (simp add: core_perf_def Let_def split_beta)
  next
    case (Inr u)
    with assms cl have "trace w' = trace w3 @ [DeviceSynchronize, Barrier, PerfCounterNs]"
      by (auto simp: core_perf_def Let_def split_beta time_perf_counter_ns_def split: if_splits)
    with p3 show ?thesis by (metis prefix_order.trans prefixI)
  qed
qed

lemma try_body_frame:
  assumes "try_body e b pool w = (r, w')"
  shows "prefix (trace w) (trace w')"
proof -
  let ?w1 = "barrier (device_synchronize w)"
  obtain r2 w2 where warm: "choice_loop e b pool warm_iterations ?w1 = (r2, w2)"
    by (cases "choice_loop e b pool warm_iterations ?w1")
  from choice_loop_frame [OF warm] have p2: "prefix (trace w) (trace w2)"
    by (auto elim: append_prefixD)
  show ?thesis
  proof (cases r2)
    case (Inl x)
    with assms warm p2 show ?thesis by (simp add: try_body_def Let_def)
  next
    case r2: (Inr u)
    let ?w4 = "snd (time_perf_counter_ns e (barrier (device_synchronize w2)))"
    have p4: "prefix (trace w) (trace ?w4)"
      using p2 by (auto simp: time_perf_counter_ns_def prefix_def)
    obtain r5 w5 where test: "choice_loop e b pool test_iterations ?w4 = (r5, w5)"
      by (cases "choice_loop e b pool test_iterations ?w4")
    from choice_loop_frame [OF test] p4 have p5: "prefix (trace w) (trace w5)" by auto
    show ?thesis
    proof (cases r5)
      case (Inl x)
      with assms warm r2 test p5 show ?thesis
        by (simp add: try_body_def Let_def split_beta)
    next
      case r5: (Inr u5)
      let ?w7 = "snd (time_perf_counter_ns e (barrier (device_synchronize w5)))"
      let ?avg = "avg_op_duration (fst (time_perf_counter_ns e (barrier (device_synchronize w2))))
                    (fst (time_perf_counter_ns e (barrier (device_synchronize w5))))"
      have p7: "prefix (trace w) (trace ?w7)"
        using p5 by (auto simp: time_perf_counter_ns_def prefix_def)
      show ?thesis
      proof (cases "prefer_iterations ?avg (iterations b)")
        case (Inl x)
        with assms warm r2 test r5 p7 show ?thesis
          by (simp add: try_body_def Let_def split_beta)
      next
        case n: (Inr n)
        obtain r8 w8 where core: "core_perf e b n pool ?w7 = (r8, w8)"
          by (cases "core_perf e b n pool ?w7")
        from core_perf_frame [OF core] p7 have p8: "prefix (trace w) (trace w8)" by auto
        from assms warm r2 test r5 n core have "w' = w8"
          by (cases r8) (simp_all add: try_body_def Let_def split_beta)
        with p8 show ?thesis by simp
      qed
    qed
  qed
qed

lemma measure_latency_frame:
  assumes "measure_latency e b pool w = (r, w')"
  shows "prefix (trace w) (trace w')"
proof (cases "pool = []")
  case True
  with assms show ?thesis by (simp add: measure_latency_def)
next
  case False
  obtain r1 w1 where tb: "try_body e b pool w = (r1, w1)" by (cases "try_body e b pool w")
  with assms False have "w' = w1"
    by (cases r1) (auto simp: measure_latency_def split: if_splits)
  with try_body_frame [OF tb] show ?thesis by simp
qed

subsection \<open>The outcomes of the measurement\<close>

lemma measure_latency_cases:
  "measure_latency e b [] w = (Inr (0, ''OOM''), w)"
  "pool \<noteq> [] \<Longrightarrow> try_body e b pool w = (Inl x, w1) \<Longrightarrow> is_exception x \<Longrightarrow>
     measure_latency e b pool w = (Inr (0, ''RUN_OP_ERROR''), w1)"
  "pool \<noteq> [] \<Longrightarrow> try_body e b pool w = (Inl x, w1) \<Longrightarrow> \<not> is_exception x \<Longrightarrow>
     measure_latency e b pool w = (Inl x, w1)"
  "pool \<noteq> [] \<Longrightarrow> try_body e b pool w = (Inr l, w1) \<Longrightarrow>
     measure_latency e b pool w = (Inr (l, ''''), w1)"
  by (simp_all add: measure_latency_def)

lemma measure_latency_error:
  assumes "measure_latency e b pool w = (Inr (lat, err), w1)"
  shows "err \<in> {'''', ''OOM'', ''RUN_OP_ERROR''} \<and> (err \<noteq> '''' \<longrightarrow> lat = 0)
     \<and> (err = ''OOM'') = (pool = [])"
proof (cases "pool = []")
  case True
  with assms show ?thesis by (simp add: measure_latency_cases)
next
  case False
  obtain r w2 where tb: "try_body e b pool w = (r, w2)" by (cases "try_body e b pool w")
  with assms False show ?thesis
    by (cases r) (auto simp: measure_latency_def split: if_splits)
qed

lemma measure_latency_raises:
  assumes "measure_latency e b pool w = (Inl x, w1)"
  shows "pool \<noteq> [] \<and> \<not> is_exception x \<and> try_body e b pool w = (Inl x, w1)"
proof -
  obtain r w2 where tb: "try_body e b pool w = (r, w2)" by (cases "try_body e b pool w")
  with assms show ?thesis
    by (cases r) (auto simp: measure_latency_def split: if_splits)
qed

subsection \<open>When \<open>perf\<close> returns and when it raises\<close>

lemma build_tensor_registered:
  "build_tensor e b input_shapes dt = Inr pool \<Longrightarrow> \<exists>f. get_op_compute_size_func e b = Inr f"
  by (auto simp: build_tensor_def split: sum.splits)

lemma perf_returns:
  assumes "torch_attr e dtype = Some dt"
    and "build_tensor e b input_shapes dt = Inr pool"
    and "measure_latency e b pool w = (Inr (lat, err), w1)"
  shows "perf e b input_shapes dtype w =
     (Inr (dump_report b dt input_shapes lat err),
      w1\<lparr>trace := trace w1 @ [DelTensorList, EmptyCache, DumpReport (report_kind_of b)]\<rparr>)"
proof -
  from build_tensor_registered [OF assms(2)]
  obtain f where "get_op_compute_size_func e b = Inr f" ..
  with assms show ?thesis
    by (simp add: perf_def Let_def empty_cache_def del_tensor_list_def)
qed

lemma perf_propagates:
  "torch_attr e dtype = None \<Longrightarrow> perf e b input_shapes dtype w = (Inl AttributeError, w)"
  "torch_attr e dtype = Some dt \<Longrightarrow> build_tensor e b input_shapes dt = Inl x \<Longrightarrow>
     perf e b input_shapes dtype w = (Inl x, w)"
  "torch_attr e dtype = Some dt \<Longrightarrow> build_tensor e b input_shapes dt = Inr pool \<Longrightarrow>
     measure_latency e b pool w = (Inl x, w1) \<Longrightarrow>
     perf e b input_shapes dtype w = (Inl x, w1)"
  by (simp_all add: perf_def)

lemma dump_report_fields [simp]:
  "kind (dump_report b dt input_shapes lat err) = report_kind_of b"
  "latency (dump_report b dt input_shapes lat err) = lat"
  "error (dump_report b dt input_shapes lat err) = err"
  by (simp_all add: dump_report_def)

lemma perf_reportE:
  assumes "perf e b input_shapes dtype w = (Inr rep, w')"
  obtains dt pool lat err w1
  where "torch_attr e dtype = Some dt"
    and "build_tensor e b input_shapes dt = Inr pool"
    and "measure_latency e b pool w = (Inr (lat, err), w1)"
    and "rep = dump_report b dt input_shapes lat err"
    and "w' = w1\<lparr>trace := trace w1 @ [DelTensorList, EmptyCache,
                DumpReport (report_kind_of b)]\<rparr>"
proof (cases "torch_attr e dtype")
  case None
  with assms show ?thesis by (simp add: perf_propagates)
next
  case (Some dt)
  show ?thesis
  proof (cases "build_tensor e b input_shapes dt")
    case (Inl x)
    with assms Some show ?thesis by (simp add: perf_propagates)
  next
    case (Inr pool)
    obtain r w1 where ml: "measure_latency e b pool w = (r, w1)"
      by (cases "measure_latency e b pool w")
    show ?thesis
    proof (cases r)
      case (Inl x)
      with assms perf_propagates(3) [OF Some Inr ml [unfolded Inl]] show ?thesis by simp
    next
      case r: (Inr le)
      obtain lat err where le: "le = (lat, err)" by (cases le)
      from perf_returns [OF Some Inr ml [unfolded r le]] assms
      have "rep = dump_report b dt input_shapes lat err"
        and "w' = w1\<lparr>trace := trace w1 @ [DelTensorList, EmptyCache,
                DumpReport (report_kind_of b)]\<rparr>"
        by simp_all
      with that [OF Some Inr ml [unfolded r le]] show ?thesis by blast
    qed
  qed
qed

subsection \<open>What \<open>build_tensor\<close> computes once its lookups have succeeded\<close>

lemma build_tensor_unfold:
  assumes "default_op_compute_size_registry e (op_name b) = Some size_f"
    and "size_f input_shapes dt = Inr result"
    and "default_op_create_tensors_registry e (op_name b) = Some create_f"
    and "select_tensor_size result = Some tensor_size"
  shows "build_tensor e b input_shapes dt =
     (case max_data_cnt b tensor_size of
        Inl x \<Rightarrow> Inl x
      | Inr (EarlyReturn v) \<Rightarrow> Inr v
      | Inr (MaxDataCnt k) \<Rightarrow>
          create_tensor_list (\<lambda>i. create_f i input_shapes dt (torch_device_name e)) 0 (nat k))"
  using assms
  by (simp add: build_tensor_def get_op_compute_size_func_def get_op_create_tensors_func_def)

lemma create_tensor_list_ok:
  "\<forall>j. f j = Inr (g j) \<Longrightarrow>
     create_tensor_list f i n = Inr (map (\<lambda>j. TensorSet (g j)) [i..<i + n])"
proof (induction n arbitrary: i)
  case 0
  show ?case by simp
next
  case (Suc n)
  have range_step: "[i..<Suc (i + n)] = i # [Suc i..<Suc (i + n)]"
    by (simp add: upt_conv_Cons)
  from Suc show ?case
    by (simp add: range_step del: upt_Suc)
qed

subsection \<open>An operator that raises, and one that returns\<close>

lemma run_operation_raises:
  assumes "\<forall>f. op b = Some f \<longrightarrow> (\<forall>j args. \<exists>x. f j args = Some x \<and> is_exception x)"
  shows "\<exists>x w'. run_operation b s w = (Inl x, w') \<and> is_exception x"
proof (cases s)
  case (IntObj n)
  then show ?thesis by (simp add: run_operation_def is_exception_def)
next
  case (TensorSet args)
  show ?thesis
  proof (cases "op b")
    case None
    with TensorSet show ?thesis by (simp add: run_operation_def is_exception_def)
  next
    case (Some f)
    with assms obtain x where "f (op_calls w) args = Some x" and "is_exception x" by fastforce
    with TensorSet Some show ?thesis by (simp add: run_operation_def)
  qed
qed

lemma choice_loop_raises:
  assumes "\<forall>f. op b = Some f \<longrightarrow> (\<forall>j args. \<exists>x. f j args = Some x \<and> is_exception x)"
  shows "\<exists>x w'. choice_loop e b pool (Suc n) w = (Inl x, w') \<and> is_exception x"
proof -
  obtain c w1 where rc: "random_choice e pool w = (c, w1)"
    by (cases "random_choice e pool w")
  show ?thesis
  proof (cases c)
    case (Inl x)
    with rc have "x = IndexError" by (auto simp: random_choice_def split: if_splits)
    with rc Inl show ?thesis by (simp add: is_exception_def)
  next
    case (Inr s)
    from run_operation_raises [OF assms] obtain x w2
      where "run_operation b s w1 = (Inl x, w2)" and "is_exception x" by blast
    with rc Inr show ?thesis by simp
  qed
qed

lemma try_body_raises:
  assumes "\<forall>f. op b = Some f \<longrightarrow> (\<forall>j args. \<exists>x. f j args = Some x \<and> is_exception x)"
  shows "\<exists>x w'. try_body e b pool w = (Inl x, w') \<and> is_exception x"
proof -
  have five: "warm_iterations = Suc 4" by (simp add: warm_iterations_def)
  from choice_loop_raises [OF assms] obtain x w2
    where "choice_loop e b pool warm_iterations (barrier (device_synchronize w)) = (Inl x, w2)"
      and "is_exception x"
    unfolding five by blast
  then show ?thesis by (simp add: try_body_def Let_def)
qed

lemma run_operation_ok:
  "op b = Some f \<Longrightarrow> f (op_calls w) args = None \<Longrightarrow>
     run_operation b (TensorSet args) w =
       (Inr (), w\<lparr>trace := trace w @ [RunOp args], op_calls := Suc (op_calls w)\<rparr>)"
  by (simp add: run_operation_def)

lemma choice_loop_ok:
  assumes "op b = Some f" and "\<forall>j args. f j args = None" and "tss \<noteq> []"
  shows "\<exists>w'. choice_loop e b (map TensorSet tss) n w = (Inr (), w')"
proof (induction n arbitrary: w)
  case 0
  show ?case by simp
next
  case (Suc n)
  let ?i = "random_draw e (choices w) mod length tss"
  have idx: "?i < length tss" using assms(3) by simp
  have pick: "random_choice e (map TensorSet tss) w =
      (Inr (TensorSet (tss ! ?i)), w\<lparr>choices := Suc (choices w)\<rparr>)"
    using assms(3) idx by (simp add: random_choice_def)
  have run: "run_operation b (TensorSet (tss ! ?i)) (w\<lparr>choices := Suc (choices w)\<rparr>) =
      (Inr (), w\<lparr>choices := Suc (choices w), trace := trace w @ [RunOp (tss ! ?i)],
                  op_calls := Suc (op_calls w)\<rparr>)"
    using assms(1,2) by (simp add: run_operation_def)
  from Suc.IH show ?case by (simp add: pick run)
qed

lemma core_loop_runs:
  assumes "op b = Some f" and "\<forall>j args. f j args = None" and "tss \<noteq> []"
  shows "core_loop b (map TensorSet tss) i n w =
     (Inr (), w\<lparr>trace := trace w @ map (\<lambda>j. RunOp (tss ! (j mod length tss))) [i..<i + n],
                 op_calls := op_calls w + n\<rparr>)"
proof (induction n arbitrary: i w)
  case 0
  show ?case by simp
next
  case (Suc n)
  have idx: "i mod length tss < length tss" using assms(3) by simp
  have range_step: "[i..<Suc (i + n)] = i # [Suc i..<Suc (i + n)]"
    by (simp add: upt_conv_Cons)
  show ?case
    using assms idx
    by (simp add: run_operation_ok Suc.IH range_step del: upt_Suc)
qed

subsection \<open>A request for zero iterations\<close>

lemma core_perf_zero:
  "\<exists>w'. core_perf e b 0 pool w = (Inl ZeroDivisionError, w')"
  by (simp add: core_perf_def Let_def split_beta)

lemma prefer_iterations_zero_requested:
  assumes "0 < avg" and "avg \<le> 10"
  shows "prefer_iterations avg 0 = Inr 0"
proof -
  from assms have "0 < 10 / avg" by simp
  then have "0 < \<lceil>10 / avg\<rceil>" by simp
  with assms show ?thesis
    by (simp add: prefer_iterations_def max_total_duration_def)
qed

lemma try_body_after_calibration:
  assumes "choice_loop e b pool warm_iterations (barrier (device_synchronize w)) = (Inr (), w2)"
    and "choice_loop e b pool test_iterations
           (snd (time_perf_counter_ns e (barrier (device_synchronize w2)))) = (Inr (), w5)"
  shows "try_body e b pool w =
     (case prefer_iterations
             (avg_op_duration (perf_counter_ns e (clock_reads w))
                (perf_counter_ns e (Suc (clock_reads w)))) (iterations b) of
        Inl x \<Rightarrow> (Inl x, snd (time_perf_counter_ns e (barrier (device_synchronize w5))))
      | Inr n \<Rightarrow>
          (case core_perf e b n pool
                  (snd (time_perf_counter_ns e (barrier (device_synchronize w5)))) of
             (Inl x, w8) \<Rightarrow> (Inl x, w8)
           | (Inr v, w8) \<Rightarrow> (Inr (round_2 e v), w8)))"
proof -
  from choice_loop_frame [OF assms(1)] have c2: "clock_reads w2 = clock_reads w" by simp
  let ?w3 = "barrier (device_synchronize w2)"
  have start: "fst (time_perf_counter_ns e ?w3) = perf_counter_ns e (clock_reads w)"
    and c4: "clock_reads (snd (time_perf_counter_ns e ?w3)) = Suc (clock_reads w)"
    using c2 by (simp_all add: time_perf_counter_ns_def)
  from choice_loop_frame [OF assms(2)] c4 have c5: "clock_reads w5 = Suc (clock_reads w)" by simp
  have stop: "fst (time_perf_counter_ns e (barrier (device_synchronize w5)))
      = perf_counter_ns e (Suc (clock_reads w))"
    using c5 by (simp add: time_perf_counter_ns_def)
  show ?thesis
    using assms start stop by (simp add: try_body_def Let_def split_beta)
qed

section \<open>The claims\<close>

subsection \<open>C1: a footprint above the budget\<close>

text \<open>
  C1 says that whenever \<open>tensor_size > assume_avail_bytes\<close>, \<open>build_tensor\<close> returns an
  empty pool, \<open>perf\<close> reports latency 0 with error \<open>OOM\<close>, and the operator is never
  invoked. The code does so for the names of line 156 only. For any other operator
  line 163 returns a tuple of three objects, which \<open>perf\<close> takes for a pool of three
  slots: with \<open>memory_limit = 1\<close> (a budget of 966367641.6 bytes) and a footprint of
  2147483648 bytes, \<open>build_tensor\<close> returns \<open>([], 0, 2147483648)\<close>, the operator is
  entered with no argument eleven times (the random choices all take slot 0), the unpacking of the integer 0 raises on the
  second round of the timed loop, and the report says \<open>RUN_OP_ERROR\<close>, not \<open>OOM\<close>.
\<close>

theorem oom_computation_not_reported:
  "build_tensor (example_env ms_clock) (example_backend ''gemm'' 3 (Some ok_operator) 1)
     [[268435456]] (TorchDtype ''float32'') = Inr [TensorSet [], IntObj 0, IntObj 2147483648]
   \<and> real_of_int 2147483648 > assume_avail_bytes (example_backend ''gemm'' 3 (Some ok_operator) 1)
   \<and> perf (example_env ms_clock) (example_backend ''gemm'' 3 (Some ok_operator) 1)
       [[268435456]] ''float32'' world0 =
      (Inr \<lparr>kind = Computation, report_op_name = ''gemm'',
            report_dtype = TorchDtype ''float32'', report_shapes = [[268435456]],
            report_world_size = None, latency = 0, error = ''RUN_OP_ERROR''\<rparr>,
       \<lparr>trace =
          [DeviceSynchronize, Barrier, RunOp [], RunOp [], RunOp [], RunOp [], RunOp [],
           DeviceSynchronize, Barrier, PerfCounterNs, RunOp [], RunOp [], RunOp [], RunOp [],
           RunOp [], DeviceSynchronize, Barrier, PerfCounterNs, DeviceSynchronize, Barrier,
           PerfCounterNs, RunOp [], DelTensorList, EmptyCache, DumpReport Computation],
        clock_reads = 3, choices = 10, op_calls = 11\<rparr>)"
  by (simp add: example_defs build_tensor_defs perf_defs choice_loop_numeral core_loop_numeral)

subsection \<open>C2: which exceptions leave \<open>perf\<close>\<close>

text \<open>
  C2 as stated (\<open>perf\<close> never raises, for any dtype string and any behaviour of the
  registry) fails: the lookup of the dtype in \<open>torch\<close> and the whole of \<open>build_tensor\<close>
  run before the \<open>try\<close> of line 200. An unknown dtype name raises \<open>AttributeError\<close>, an
  operator missing from the registry raises \<open>NotImplementedError\<close>, and both leave \<open>perf\<close>.
\<close>

theorem perf_raises_counterexample:
  "perf (example_env ms_clock) (example_backend ''gemm'' 3 (Some ok_operator) 10)
     [[1024]] ''float33'' world0 = (Inl AttributeError, world0)
   \<and> perf (example_env ms_clock) (example_backend ''relu'' 3 (Some ok_operator) 10)
     [[1024]] ''float32'' world0 = (Inl NotImplementedError, world0)"
  by (simp add: example_defs build_tensor_defs perf_def)

text \<open>
  C2, amended: the result of \<open>perf\<close> in full. \<open>perf\<close> raises what the lookup of the dtype
  raises, what \<open>build_tensor\<close> raises, and what the \<open>try\<close> block raises outside the class
  \<open>Exception\<close>; nothing else. On an empty pool it reports latency 0 and \<open>OOM\<close>; an
  exception of the class \<open>Exception\<close> raised in the \<open>try\<close> block (warm-up, calibration,
  planning, timed run) is converted into a report with latency 0 and \<open>RUN_OP_ERROR\<close>; a
  \<open>try\<close> block that returns \<open>l\<close> gives a report with latency \<open>l\<close> and an empty error.
\<close>

theorem perf_raises_exactly_outside_try:
  "fst (perf e b input_shapes dtype w) =
     (case torch_attr e dtype of
        None \<Rightarrow> Inl AttributeError
      | Some dt \<Rightarrow>
          (case build_tensor e b input_shapes dt of
             Inl x \<Rightarrow> Inl x
           | Inr pool \<Rightarrow>
               (if pool = [] then Inr (dump_report b dt input_shapes 0 ''OOM'')
                else case fst (try_body e b pool w) of
                       Inr l \<Rightarrow> Inr (dump_report b dt input_shapes l '''')
                     | Inl x \<Rightarrow>
                         if is_exception x
                         then Inr (dump_report b dt input_shapes 0 ''RUN_OP_ERROR'')
                         else Inl x)))
   \<and> latency (dump_report b dt' input_shapes lat err) = lat
   \<and> error (dump_report b dt' input_shapes lat err) = err"
proof -
  have "fst (perf e b input_shapes dtype w) =
     (case torch_attr e dtype of
        None \<Rightarrow> Inl AttributeError
      | Some dt \<Rightarrow>
          (case build_tensor e b input_shapes dt of
             Inl x \<Rightarrow> Inl x
           | Inr pool \<Rightarrow>
               (if pool = [] then Inr (dump_report b dt input_shapes 0 ''OOM'')
                else case fst (try_body e b pool w) of
                       Inr l \<Rightarrow> Inr (dump_report b dt input_shapes l '''')
                     | Inl x \<Rightarrow>
                         if is_exception x
                         then Inr (dump_report b dt input_shapes 0 ''RUN_OP_ERROR'')
                         else Inl x)))"
  proof (cases "torch_attr e dtype")
    case None
    then show ?thesis by (simp add: perf_propagates)
  next
    case (Some dt)
    show ?thesis
    proof (cases "build_tensor e b input_shapes dt")
      case (Inl x)
      with Some show ?thesis by (simp add: perf_propagates)
    next
      case (Inr pool)
      show ?thesis
      proof (cases "pool = []")
        case True
        from perf_returns [OF Some Inr measure_latency_cases(1) [of e b w, folded True]]
        show ?thesis using Some Inr True by simp
      next
        case False
        obtain r w1 where tb: "try_body e b pool w = (r, w1)" by (cases "try_body e b pool w")
        show ?thesis
        proof (cases r)
          case (Inr l)
          from perf_returns [OF Some \<open>build_tensor e b input_shapes dt = Inr pool\<close>
              measure_latency_cases(4) [OF False tb [unfolded Inr]]]
          show ?thesis using Some \<open>build_tensor e b input_shapes dt = Inr pool\<close> False tb Inr
            by simp
        next
          case (Inl x)
          show ?thesis
          proof (cases "is_exception x")
            case True
            from perf_returns [OF Some \<open>build_tensor e b input_shapes dt = Inr pool\<close>
                measure_latency_cases(2) [OF False tb [unfolded Inl] True]]
            show ?thesis
              using Some \<open>build_tensor e b input_shapes dt = Inr pool\<close> False tb Inl True
              by simp
          next
            case not_caught: False
            from perf_propagates(3) [OF Some \<open>build_tensor e b input_shapes dt = Inr pool\<close>
                measure_latency_cases(3) [OF False tb [unfolded Inl] not_caught]]
            show ?thesis
              using Some \<open>build_tensor e b input_shapes dt = Inr pool\<close> False tb Inl not_caught
              by simp
          qed
        qed
      qed
    qed
  qed
  then show ?thesis by simp
qed

theorem perf_raises_exactly_outside_try_witness:
  "fst (perf (example_env ms_clock)
       (example_backend ''allreduce'' 3 (Some failing_operator) 1) [[1024]] ''float32'' world0)
     = Inr \<lparr>kind = Communication, report_op_name = ''allreduce'',
            report_dtype = TorchDtype ''float32'', report_shapes = [[1024]],
            report_world_size = None, latency = 0, error = ''RUN_OP_ERROR''\<rparr>
   \<and> fst (perf (example_env ms_clock)
       (example_backend ''allreduce'' 3 (Some interrupted_operator) 1) [[1024]] ''float32'' world0)
     = Inl (RaisedBase ''KeyboardInterrupt'')
   \<and> fst (perf (example_env ms_clock)
       (example_backend ''short'' 3 (Some ok_operator) 1) [[1024]] ''float32'' world0)
     = Inl UnboundLocalError"
  using perf_raises_exactly_outside_try [of "example_env ms_clock"
      "example_backend ''allreduce'' 3 (Some failing_operator) 1" "[[1024]]" "''float32''" world0]
    perf_raises_exactly_outside_try [of "example_env ms_clock"
      "example_backend ''allreduce'' 3 (Some interrupted_operator) 1" "[[1024]]" "''float32''"
      world0]
    perf_raises_exactly_outside_try [of "example_env ms_clock"
      "example_backend ''short'' 3 (Some ok_operator) 1" "[[1024]]" "''float32''" world0]
  by (simp add: example_defs build_tensor_defs perf_defs choice_loop_numeral core_loop_numeral)

subsection \<open>C3: the planned number of iterations\<close>

text \<open>
  C3: after a calibration that ran without exception and measured an average duration of
  \<open>avg\<close> seconds between its two readings of the clock, the planner takes 2 iterations
  when \<open>avg > 10\<close> and \<open>min (ceil (10 / avg)) requested\<close> otherwise, and this is the count
  that \<open>core_perf\<close> is called with; a measured 0.001 s with 100000 requested gives 10000.
  The quotient \<open>10 / avg\<close> exists for \<open>avg \<noteq> 0\<close> only: at \<open>avg = 0\<close> the division of line 227
  raises.
\<close>

theorem planner_prefer_iterations:
  assumes "op b = Some f" and "\<forall>j args. f j args = None" and "tss \<noteq> []"
    and "avg = avg_op_duration (perf_counter_ns e (clock_reads w))
                 (perf_counter_ns e (Suc (clock_reads w)))"
    and "avg \<noteq> 0"
  shows "prefer_iterations avg (iterations b) =
       Inr (if avg > 10 then 2 else min \<lceil>10 / avg\<rceil> (iterations b))
     \<and> (\<exists>w7. try_body e b (map TensorSet tss) w =
           (case core_perf e b (if avg > 10 then 2 else min \<lceil>10 / avg\<rceil> (iterations b))
                   (map TensorSet tss) w7 of
              (Inl x, w8) \<Rightarrow> (Inl x, w8)
            | (Inr v, w8) \<Rightarrow> (Inr (round_2 e v), w8)))"
proof -
  let ?pool = "map TensorSet tss"
  let ?n = "if avg > 10 then 2 else min \<lceil>10 / avg\<rceil> (iterations b)"
  have plan: "prefer_iterations avg (iterations b) = Inr ?n"
    using assms(5) by (simp add: prefer_iterations_def max_total_duration_def)
  let ?w1 = "barrier (device_synchronize w)"
  from choice_loop_ok [OF assms(1-3)] obtain w2
    where warm: "choice_loop e b ?pool warm_iterations ?w1 = (Inr (), w2)" by blast
  from choice_loop_frame [OF warm] have c2: "clock_reads w2 = clock_reads w" by simp
  let ?w3 = "barrier (device_synchronize w2)"
  let ?w4 = "snd (time_perf_counter_ns e ?w3)"
  have start: "fst (time_perf_counter_ns e ?w3) = perf_counter_ns e (clock_reads w)"
    and c4: "clock_reads ?w4 = Suc (clock_reads w)"
    using c2 by (simp_all add: time_perf_counter_ns_def)
  from choice_loop_ok [OF assms(1-3)] obtain w5
    where test: "choice_loop e b ?pool test_iterations ?w4 = (Inr (), w5)" by blast
  from choice_loop_frame [OF test] c4 have c5: "clock_reads w5 = Suc (clock_reads w)" by simp
  let ?w7 = "snd (time_perf_counter_ns e (barrier (device_synchronize w5)))"
  have stop: "fst (time_perf_counter_ns e (barrier (device_synchronize w5)))
      = perf_counter_ns e (Suc (clock_reads w))"
    using c5 by (simp add: time_perf_counter_ns_def)
  have "try_body e b ?pool w =
      (case core_perf e b ?n ?pool ?w7 of
         (Inl x, w8) \<Rightarrow> (Inl x, w8)
       | (Inr v, w8) \<Rightarrow> (Inr (round_2 e v), w8))"
    using warm test start stop plan assms(4)
    by (simp add: try_body_def Let_def split_beta)
  with plan show ?thesis by blast
qed

theorem planner_prefer_iterations_witness:
  "prefer_iterations (1 / 1000) 100000 = Inr 10000
   \<and> avg_op_duration 0 5000000 = 1 / 1000
   \<and> (\<exists>w7. try_body (example_env ms_clock)
              (example_backend ''gemm'' 100000 (Some ok_operator) 10) [TensorSet [0, 1]] world0 =
           (case core_perf (example_env ms_clock)
                   (example_backend ''gemm'' 100000 (Some ok_operator) 10) 10000
                   [TensorSet [0, 1]] w7 of
              (Inl x, w8) \<Rightarrow> (Inl x, w8)
            | (Inr v, w8) \<Rightarrow> (Inr (round_2 (example_env ms_clock) v), w8)))
   \<and> prefer_iterations 20 100000 = Inr 2"
  using planner_prefer_iterations [of "example_backend ''gemm'' 100000 (Some ok_operator) 10"
      ok_operator "[[0, 1]]" "1 / 1000" "example_env ms_clock" world0]
    planner_prefer_iterations [of "example_backend ''gemm'' 100000 (Some ok_operator) 10"
      ok_operator "[[0, 1]]" 20 "example_env slow_clock" world0]
  by (simp add: example_defs avg_op_duration_def test_iterations_def)

subsection \<open>C4: the timed loop\<close>

text \<open>
  C4: on a pool of \<open>k \<ge> 1\<close> tensor-sets and for \<open>n \<ge> 1\<close>, with an operator that returns
  normally, \<open>core_perf\<close> enters the operator exactly \<open>n\<close> times, the \<open>i\<close>-th time on slot
  \<open>i mod k\<close>, between two pairs of synchronize and barrier, and returns the nanoseconds
  between its two readings of the clock, divided by 1000 and by \<open>n\<close>.
\<close>

theorem core_perf_invokes_n_times:
  assumes "op b = Some f" and "\<forall>j args. f j args = None"
    and "1 \<le> length tss" and "1 \<le> n"
  shows "core_perf e b (int n) (map TensorSet tss) w =
     (Inr (real_of_int (perf_counter_ns e (Suc (clock_reads w)) - perf_counter_ns e (clock_reads w))
           / 1000 / real n),
      w\<lparr>trace := trace w @ [DeviceSynchronize, Barrier, PerfCounterNs]
                  @ map (\<lambda>i. RunOp (tss ! (i mod length tss))) [0..<n]
                  @ [DeviceSynchronize, Barrier, PerfCounterNs],
        clock_reads := clock_reads w + 2,
        op_calls := op_calls w + n\<rparr>)"
proof -
  from assms(3) have ne: "tss \<noteq> []" by auto
  show ?thesis
    using assms(4)
    by (simp add: core_perf_def Let_def time_perf_counter_ns_def
        core_loop_runs [OF assms(1,2) ne] barrier_def device_synchronize_def)
qed

theorem core_perf_invokes_n_times_witness:
  "core_perf (example_env ms_clock) (example_backend ''gemm'' 3 (Some ok_operator) 10) 3
     [TensorSet [0, 1], TensorSet [2, 3]] world0 =
     (Inr (5000 / 3),
      \<lparr>trace = [DeviceSynchronize, Barrier, PerfCounterNs, RunOp [0, 1], RunOp [2, 3], RunOp [0, 1],
                DeviceSynchronize, Barrier, PerfCounterNs],
       clock_reads = 2, choices = 0, op_calls = 3\<rparr>)"
  using core_perf_invokes_n_times [of "example_backend ''gemm'' 3 (Some ok_operator) 10" ok_operator
      "[[0, 1], [2, 3]]" 3 "example_env ms_clock" world0]
  by (simp add: example_backend_def ok_operator_def example_env_def ms_clock_def world0_def
      upt_rec [of 0] numeral_3_eq_3)

subsection \<open>C5: the pool of a computation-class operator\<close>

text \<open>
  C5 as stated (for a footprint from 1 byte up to, but not reaching, half the budget the
  pool holds \<open>min (floor (assume_avail_bytes / tensor_size)) requested\<close> slots, at least
  one) fails twice. A footprint above the assumed cache size of 1 GiB gets two slots
  (lines 166 and 167): with a budget of 9 GiB, a footprint of 2 GiB and 100 requested
  iterations the pool has 2 slots, not 4. And with 0 requested iterations the pool is
  empty.
\<close>

theorem computation_pool_size_counterexample:
  "build_tensor (example_env ms_clock) (example_backend ''gemm'' 100 (Some ok_operator) 10)
     [[268435456]] (TorchDtype ''float32'') = Inr [TensorSet [0, 1], TensorSet [2, 3]]
   \<and> example_compute_size [[268435456]] (TorchDtype ''float32'')
       = Inr [1, 2147483648, 1073741824, 1073741824]
   \<and> real_of_int 2147483648 < assume_avail_bytes (example_backend ''gemm'' 100 (Some ok_operator) 10) / 2
   \<and> min \<lfloor>assume_avail_bytes (example_backend ''gemm'' 100 (Some ok_operator) 10)
           / real_of_int 2147483648\<rfloor> 100 = 4
   \<and> build_tensor (example_env ms_clock) (example_backend ''gemm'' 0 (Some ok_operator) 10)
     [[1024]] (TorchDtype ''float32'') = Inr []"
  by (simp add: example_defs build_tensor_defs numeral_2_eq_2)

text \<open>
  C5, amended: for a computation-class operator whose footprint is at least 1 byte and
  below half the budget, and whose tensor constructor does not raise, \<open>build_tensor\<close>
  returns a pool; it has 2 slots when the footprint exceeds 1 GiB; when the footprint is
  at most 1 GiB and at least one iteration is requested, it has
  \<open>min (floor (assume_avail_bytes / tensor_size)) requested\<close> slots, which is at least 1.
\<close>

theorem computation_pool_size:
  assumes "op_name b \<notin> set build_tensor_comm_ops"
    and "default_op_compute_size_registry e (op_name b) = Some size_f"
    and "size_f input_shapes dt = Inr result"
    and "default_op_create_tensors_registry e (op_name b) = Some create_f"
    and "select_tensor_size result = Some tensor_size"
    and "\<forall>i. create_f i input_shapes dt (torch_device_name e) = Inr (g i)"
    and "1 \<le> tensor_size"
    and "real_of_int tensor_size < assume_avail_bytes b / 2"
  shows "\<exists>pool. build_tensor e b input_shapes dt = Inr pool
     \<and> (tensor_size > assume_cache_size \<longrightarrow> length pool = 2)
     \<and> (tensor_size \<le> assume_cache_size \<and> 1 \<le> iterations b \<longrightarrow>
          int (length pool) = min \<lfloor>assume_avail_bytes b / real_of_int tensor_size\<rfloor> (iterations b)
          \<and> 1 \<le> length pool)"
proof -
  let ?f = "\<lambda>i. create_f i input_shapes dt (torch_device_name e)"
  let ?q = "\<lfloor>assume_avail_bytes b / real_of_int tensor_size\<rfloor>"
  from assms(7) have pos: "0 < real_of_int tensor_size" by simp
  from assms(8) have twice: "2 * real_of_int tensor_size < assume_avail_bytes b" by simp
  with pos have fits: "real_of_int tensor_size \<le> assume_avail_bytes b" by linarith
  from twice pos have "2 < assume_avail_bytes b / real_of_int tensor_size"
    by (simp add: pos_less_divide_eq)
  then have q: "2 \<le> ?q" by linarith
  have created: "\<And>n. create_tensor_list ?f 0 n = Inr (map (\<lambda>j. TensorSet (g j)) [0..<0 + n])"
    using assms(6) by (intro create_tensor_list_ok) simp
  have policy: "max_data_cnt b tensor_size =
      Inr (MaxDataCnt (if tensor_size > assume_cache_size then 2 else min ?q (iterations b)))"
    using assms(1,7) fits twice by (simp add: max_data_cnt_def)
  define k where "k = (if tensor_size > assume_cache_size then 2 else min ?q (iterations b))"
  define pool where "pool = map (\<lambda>j. TensorSet (g j)) [0..<0 + nat k]"
  have built: "build_tensor e b input_shapes dt = Inr pool"
    by (simp add: build_tensor_unfold [OF assms(2-5)] policy created k_def pool_def)
  have len: "length pool = nat k" by (simp add: pool_def)
  have big: "tensor_size > assume_cache_size \<Longrightarrow> length pool = 2"
    by (simp add: len k_def)
  have small: "int (length pool) = min ?q (iterations b) \<and> 1 \<le> length pool"
    if "tensor_size \<le> assume_cache_size" and "1 \<le> iterations b"
  proof -
    from that q have "k = min ?q (iterations b)" and "1 \<le> k"
      by (simp_all add: k_def)
    with len show ?thesis by linarith
  qed
  from built big small show ?thesis by blast
qed

theorem computation_pool_size_witness:
  "\<exists>pool. build_tensor (example_env ms_clock) (example_backend ''gemm'' 3 (Some ok_operator) 10)
       [[1024]] (TorchDtype ''float32'') = Inr pool
     \<and> int (length pool) = min \<lfloor>assume_avail_bytes (example_backend ''gemm'' 3 (Some ok_operator) 10)
                                / real_of_int 8192\<rfloor> 3
     \<and> length pool = 3"
  using computation_pool_size [of "example_backend ''gemm'' 3 (Some ok_operator) 10"
      "example_env ms_clock" example_compute_size "[[1024]]" "TorchDtype ''float32''"
      "[1, 8192, 4096, 4096]" example_create_tensors 8192 "\<lambda>i. [2 * i, 2 * i + 1]"]
  by (auto simp: example_defs build_tensor_comm_ops_def select_tensor_size_def
      assume_avail_bytes_def assume_cache_size_def)

subsection \<open>C6: the two lists of communication-class names\<close>

text \<open>
  C6 as stated (the provisioner and the report use the same list of names) fails at
  \<open>hash_table\<close>: line 156 has it, lines 245 to 248 do not.
\<close>

theorem comm_ops_lists_counterexample:
  "''hash_table'' \<in> set build_tensor_comm_ops \<and> ''hash_table'' \<notin> set perf_comm_ops"
  by (simp add: build_tensor_comm_ops_def perf_comm_ops_def)

text \<open>
  C6, amended: \<open>perf\<close> emits a communication report exactly for the names that the
  provisioner treats as communication-class other than \<open>hash_table\<close>; \<open>hash_table\<close> is
  provisioned like a communication operator and reported as a computation operator.
\<close>

theorem communication_report_names:
  assumes "perf e b input_shapes dtype w = (Inr rep, w')"
  shows "(kind rep = Communication) =
     (op_name b \<in> set build_tensor_comm_ops \<and> op_name b \<noteq> ''hash_table'')"
proof -
  have lists: "set build_tensor_comm_ops = insert ''hash_table'' (set perf_comm_ops)"
    "''hash_table'' \<notin> set perf_comm_ops"
    by (auto simp: build_tensor_comm_ops_def perf_comm_ops_def)
  from assms have "(kind rep = Communication) = (op_name b \<in> set perf_comm_ops)"
    by (auto simp: perf_def Let_def report_kind_of_def
        split: option.splits sum.splits prod.splits if_splits)
  with lists show ?thesis by auto
qed

theorem communication_report_names_witness:
  "\<exists>rep w'. perf (example_env ms_clock) (example_backend ''hash_table'' 3 (Some ok_operator) 1)
       [[268435456]] ''float32'' world0 = (Inr rep, w')
     \<and> kind rep = Computation \<and> error rep = ''OOM''"
proof -
  have p: "perf (example_env ms_clock) (example_backend ''hash_table'' 3 (Some ok_operator) 1)
       [[268435456]] ''float32'' world0 =
      (Inr \<lparr>kind = Computation, report_op_name = ''hash_table'',
            report_dtype = TorchDtype ''float32'', report_shapes = [[268435456]],
            report_world_size = None, latency = 0, error = ''OOM''\<rparr>,
       \<lparr>trace = [DelTensorList, EmptyCache, DumpReport Computation],
        clock_reads = 0, choices = 0, op_calls = 0\<rparr>)"
    by (simp add: example_defs build_tensor_defs perf_defs)
  from communication_report_names [OF p] p show ?thesis by simp
qed

subsection \<open>C7: the pool of a communication-class operator\<close>

text \<open>
  C7: for a name of the provisioner's communication-class list, \<open>build_tensor\<close> returns
  the empty pool when the footprint exceeds the budget, and otherwise calls the tensor
  constructor once and returns a pool of exactly that one tensor-set (or raises what the
  constructor raised); a pool it returns never has more than one slot.
\<close>

theorem comm_pool_at_most_one:
  assumes "op_name b \<in> set build_tensor_comm_ops"
    and "default_op_compute_size_registry e (op_name b) = Some size_f"
    and "size_f input_shapes dt = Inr result"
    and "default_op_create_tensors_registry e (op_name b) = Some create_f"
    and "select_tensor_size result = Some tensor_size"
  shows "build_tensor e b input_shapes dt =
     (if real_of_int tensor_size > assume_avail_bytes b then Inr []
      else case create_f 0 input_shapes dt (torch_device_name e) of
             Inl x \<Rightarrow> Inl x
           | Inr t \<Rightarrow> Inr [TensorSet t])
     \<and> (\<forall>pool. build_tensor e b input_shapes dt = Inr pool \<longrightarrow> length pool \<le> 1)"
  using assms(1)
  by (auto simp: build_tensor_unfold [OF assms(2-5)] max_data_cnt_def split: sum.splits)

theorem comm_pool_at_most_one_witness:
  "build_tensor (example_env ms_clock) (example_backend ''allreduce'' 100 (Some ok_operator) 1)
     [[1024]] (TorchDtype ''float32'') = Inr [TensorSet [0, 1]]
   \<and> build_tensor (example_env ms_clock) (example_backend ''allreduce'' 100 (Some ok_operator) 1)
     [[268435456]] (TorchDtype ''float32'') = Inr []"
  using comm_pool_at_most_one [of "example_backend ''allreduce'' 100 (Some ok_operator) 1"
      "example_env ms_clock" example_compute_size "[[1024]]" "TorchDtype ''float32''"
      "[1, 8192, 4096, 4096]" example_create_tensors 8192]
    comm_pool_at_most_one [of "example_backend ''allreduce'' 100 (Some ok_operator) 1"
      "example_env ms_clock" example_compute_size "[[268435456]]" "TorchDtype ''float32''"
      "[1, 2147483648, 1073741824, 1073741824]" example_create_tensors 2147483648]
  by (simp add: example_backend_def example_env_def example_compute_size_def
      example_create_tensors_def build_tensor_comm_ops_def select_tensor_size_def
      assume_avail_bytes_def)

subsection \<open>C8: cleanup before the report\<close>

text \<open>
  C8 as stated (cleanup and a report with \<open>RUN_OP_ERROR\<close> also when the operator raises
  on every call) fails for an operator that raises outside the class \<open>Exception\<close>:
  line 231 does not catch a \<open>KeyboardInterrupt\<close>, lines 240 and 241 are not in a
  \<open>finally\<close>, and \<open>perf\<close> raises after the first call of the warm-up, with the pool not
  released, the cache not emptied and no report.
\<close>

theorem perf_cleanup_counterexample:
  "build_tensor (example_env ms_clock)
     (example_backend ''allreduce'' 3 (Some interrupted_operator) 1) [[1024]]
     (TorchDtype ''float32'') = Inr [TensorSet [0, 1]]
   \<and> perf (example_env ms_clock) (example_backend ''allreduce'' 3 (Some interrupted_operator) 1)
       [[1024]] ''float32'' world0 =
      (Inl (RaisedBase ''KeyboardInterrupt''),
       \<lparr>trace = [DeviceSynchronize, Barrier, RunOp [0, 1]],
        clock_reads = 0, choices = 1, op_calls = 1\<rparr>)"
  by (simp add: example_defs build_tensor_defs perf_defs choice_loop_numeral core_loop_numeral)

text \<open>
  C8, amended: in every terminal state of \<open>perf\<close>, that is whenever \<open>perf\<close> returns a
  report (its error field is empty, \<open>OOM\<close> or \<open>RUN_OP_ERROR\<close>, and the latency is 0 unless
  the error field is empty), the last three events are the release of the pool
  (\<open>del tensor_list\<close>), the emptying of the device cache and then the emission of the
  report. With a pool that is not empty and an operator that raises an exception of the
  class \<open>Exception\<close> at each call, \<open>perf\<close> reaches such a state, with latency 0 and
  \<open>RUN_OP_ERROR\<close>.
\<close>

theorem perf_cleanup_before_report:
  "(\<forall>rep w'. perf e b input_shapes dtype w = (Inr rep, w') \<longrightarrow>
       (\<exists>pre. trace w' = trace w @ pre @ [DelTensorList, EmptyCache, DumpReport (kind rep)])
       \<and> error rep \<in> {'''', ''OOM'', ''RUN_OP_ERROR''}
       \<and> (error rep \<noteq> '''' \<longrightarrow> latency rep = 0))
   \<and> (\<forall>dt pool.
         torch_attr e dtype = Some dt \<and> build_tensor e b input_shapes dt = Inr pool
         \<and> pool \<noteq> []
         \<and> (\<forall>f. op b = Some f \<longrightarrow> (\<forall>j args. \<exists>x. f j args = Some x \<and> is_exception x)) \<longrightarrow>
         (\<exists>rep w' pre. perf e b input_shapes dtype w = (Inr rep, w')
            \<and> trace w' = trace w @ pre @ [DelTensorList, EmptyCache, DumpReport (kind rep)]
            \<and> latency rep = 0 \<and> error rep = ''RUN_OP_ERROR''))"
proof -
  have terminal: "(\<exists>pre. trace w' = trace w @ pre @ [DelTensorList, EmptyCache, DumpReport (kind rep)])
       \<and> error rep \<in> {'''', ''OOM'', ''RUN_OP_ERROR''}
       \<and> (error rep \<noteq> '''' \<longrightarrow> latency rep = 0)"
    if ret: "perf e b input_shapes dtype w = (Inr rep, w')" for rep w'
  proof (rule perf_reportE [OF ret])
    fix dt pool lat err w1
    assume ml: "measure_latency e b pool w = (Inr (lat, err), w1)"
      and rep: "rep = dump_report b dt input_shapes lat err"
      and w': "w' = w1\<lparr>trace := trace w1 @ [DelTensorList, EmptyCache,
                 DumpReport (report_kind_of b)]\<rparr>"
    from measure_latency_frame [OF ml] obtain pre where pre: "trace w1 = trace w @ pre"
      by (auto simp: prefix_def)
    have tr: "trace w' = trace w @ pre @ [DelTensorList, EmptyCache, DumpReport (kind rep)]"
      by (simp add: rep w' pre)
    note errs = measure_latency_error [OF ml]
    have e1: "error rep \<in> {'''', ''OOM'', ''RUN_OP_ERROR''}"
      using errs by (auto simp: rep)
    have e2: "error rep \<noteq> '''' \<longrightarrow> latency rep = 0"
      using errs by (auto simp: rep)
    from tr e1 e2 show ?thesis by blast
  qed
  have raising: "\<exists>rep w' pre. perf e b input_shapes dtype w = (Inr rep, w')
      \<and> trace w' = trace w @ pre @ [DelTensorList, EmptyCache, DumpReport (kind rep)]
      \<and> latency rep = 0 \<and> error rep = ''RUN_OP_ERROR''"
    if dt: "torch_attr e dtype = Some dt"
      and pool: "build_tensor e b input_shapes dt = Inr pool" and ne: "pool \<noteq> []"
      and op: "\<forall>f. op b = Some f \<longrightarrow> (\<forall>j args. \<exists>x. f j args = Some x \<and> is_exception x)"
    for dt pool
  proof -
    from try_body_raises [OF op] obtain x w1
      where tb: "try_body e b pool w = (Inl x, w1)" and caught: "is_exception x" by blast
    note ml = measure_latency_cases(2) [OF ne tb caught]
    from measure_latency_frame [OF ml] obtain pre where pre: "trace w1 = trace w @ pre"
      by (auto simp: prefix_def)
    let ?rep = "dump_report b dt input_shapes 0 ''RUN_OP_ERROR''"
    let ?w' = "w1\<lparr>trace := trace w1 @ [DelTensorList, EmptyCache,
                 DumpReport (report_kind_of b)]\<rparr>"
    have "perf e b input_shapes dtype w = (Inr ?rep, ?w')"
      by (rule perf_returns [OF dt pool ml])
    moreover have "trace ?w' = trace w @ pre @ [DelTensorList, EmptyCache, DumpReport (kind ?rep)]"
      by (simp add: pre)
    moreover have "latency ?rep = 0 \<and> error ?rep = ''RUN_OP_ERROR''" by simp
    ultimately show ?thesis by blast
  qed
  from terminal raising show ?thesis by blast
qed

theorem perf_cleanup_before_report_witness:
  "\<exists>rep w' pre. perf (example_env ms_clock)
         (example_backend ''allreduce'' 3 (Some failing_operator) 1) [[1024]] ''float32'' world0
       = (Inr rep, w')
     \<and> trace w' = trace world0 @ pre @ [DelTensorList, EmptyCache, DumpReport (kind rep)]
     \<and> latency rep = 0 \<and> error rep = ''RUN_OP_ERROR''"
proof -
  have dt: "torch_attr (example_env ms_clock) ''float32'' = Some (TorchDtype ''float32'')"
    by (simp add: example_env_def)
  have pool: "build_tensor (example_env ms_clock)
      (example_backend ''allreduce'' 3 (Some failing_operator) 1) [[1024]] (TorchDtype ''float32'')
      = Inr [TensorSet [0, 1]]"
    by (simp add: example_defs build_tensor_defs)
  have raising: "\<forall>f. op (example_backend ''allreduce'' 3 (Some failing_operator) 1) = Some f
      \<longrightarrow> (\<forall>j args. \<exists>x. f j args = Some x \<and> is_exception x)"
    by (simp add: example_backend_def failing_operator_def is_exception_def)
  from perf_cleanup_before_report [of "example_env ms_clock"
      "example_backend ''allreduce'' 3 (Some failing_operator) 1" "[[1024]]" "''float32''" world0]
    dt pool raising
  show ?thesis by blast
qed

subsection \<open>C9: zero requested iterations\<close>

text \<open>
  C9 as stated (with 0 requested iterations and a pool that is not empty the planner
  always computes 0 and \<open>perf\<close> reports \<open>RUN_OP_ERROR\<close>) fails when the calibration
  measures more than 10 s for a call: line 225 then sets 2 iterations without looking at
  the request. Here the clock advances 100 s between readings, so the calibration
  measures 20 s for a call, the timed loop runs twice and \<open>perf\<close> reports a latency.
\<close>

theorem zero_iterations_counterexample:
  "build_tensor (example_env slow_clock) (example_backend ''allreduce'' 0 (Some ok_operator) 1)
     [[1024]] (TorchDtype ''float32'') = Inr [TensorSet [0, 1]]
   \<and> perf (example_env slow_clock) (example_backend ''allreduce'' 0 (Some ok_operator) 1)
       [[1024]] ''float32'' world0 =
      (Inr \<lparr>kind = Communication, report_op_name = ''allreduce'',
            report_dtype = TorchDtype ''float32'', report_shapes = [[1024]],
            report_world_size = None, latency = 50000000, error = ''''\<rparr>,
       \<lparr>trace =
          [DeviceSynchronize, Barrier, RunOp [0, 1], RunOp [0, 1], RunOp [0, 1], RunOp [0, 1],
           RunOp [0, 1], DeviceSynchronize, Barrier, PerfCounterNs, RunOp [0, 1], RunOp [0, 1],
           RunOp [0, 1], RunOp [0, 1], RunOp [0, 1], DeviceSynchronize, Barrier, PerfCounterNs,
           DeviceSynchronize, Barrier, PerfCounterNs, RunOp [0, 1], RunOp [0, 1],
           DeviceSynchronize, Barrier, PerfCounterNs, DelTensorList, EmptyCache,
           DumpReport Communication],
        clock_reads = 4, choices = 10, op_calls = 12\<rparr>)"
  by (simp add: example_defs build_tensor_defs perf_defs choice_loop_numeral core_loop_numeral)

text \<open>
  C9, amended: with 0 requested iterations and a pool that is not empty, when warm-up
  and calibration run without exception (reaching the worlds \<open>w2\<close> and \<open>w5\<close>) and the
  average \<open>avg\<close> between the two readings of the clock around the calibration is
  positive and at most 10 s, the planner computes 0 from \<open>avg\<close>; the \<open>try\<close> block hands
  this count to \<open>core_perf\<close> in the world \<open>w7\<close> after the calibration; \<open>core_perf\<close> raises
  \<open>ZeroDivisionError\<close> there; this is the exception the \<open>try\<close> block ends with; and \<open>perf\<close>
  catches it, cleans up and reports latency 0 with \<open>RUN_OP_ERROR\<close>.
\<close>

theorem zero_iterations_run_op_error:
  assumes "iterations b = 0"
    and "torch_attr e dtype = Some dt"
    and "build_tensor e b input_shapes dt = Inr pool"
    and "pool \<noteq> []"
    and "choice_loop e b pool warm_iterations (barrier (device_synchronize w)) = (Inr (), w2)"
    and "choice_loop e b pool test_iterations
           (snd (time_perf_counter_ns e (barrier (device_synchronize w2)))) = (Inr (), w5)"
    and "w7 = snd (time_perf_counter_ns e (barrier (device_synchronize w5)))"
    and "avg = avg_op_duration (perf_counter_ns e (clock_reads w))
                 (perf_counter_ns e (Suc (clock_reads w)))"
    and "0 < avg" and "avg \<le> 10"
  shows "prefer_iterations avg (iterations b) = Inr 0
     \<and> try_body e b pool w =
         (case prefer_iterations avg (iterations b) of
            Inl x \<Rightarrow> (Inl x, w7)
          | Inr n \<Rightarrow>
              (case core_perf e b n pool w7 of
                 (Inl x, w8) \<Rightarrow> (Inl x, w8)
               | (Inr v, w8) \<Rightarrow> (Inr (round_2 e v), w8)))
     \<and> (\<exists>w8 rep. core_perf e b 0 pool w7 = (Inl ZeroDivisionError, w8)
            \<and> try_body e b pool w = (Inl ZeroDivisionError, w8)
            \<and> perf e b input_shapes dtype w =
                (Inr rep, w8\<lparr>trace := trace w8 @ [DelTensorList, EmptyCache,
                                 DumpReport (kind rep)]\<rparr>)
            \<and> latency rep = 0 \<and> error rep = ''RUN_OP_ERROR'')"
proof -
  have plan: "prefer_iterations avg (iterations b) = Inr 0"
    unfolding assms(1) using assms(9,10) by (rule prefer_iterations_zero_requested)
  have body: "try_body e b pool w =
         (case prefer_iterations avg (iterations b) of
            Inl x \<Rightarrow> (Inl x, w7)
          | Inr n \<Rightarrow>
              (case core_perf e b n pool w7 of
                 (Inl x, w8) \<Rightarrow> (Inl x, w8)
               | (Inr v, w8) \<Rightarrow> (Inr (round_2 e v), w8)))"
    unfolding assms(7,8) by (rule try_body_after_calibration [OF assms(5,6)])
  from core_perf_zero obtain w8
    where core: "core_perf e b 0 pool w7 = (Inl ZeroDivisionError, w8)" by blast
  have tb: "try_body e b pool w = (Inl ZeroDivisionError, w8)"
    by (simp add: body plan core)
  have caught: "is_exception ZeroDivisionError" by (simp add: is_exception_def)
  note ml = measure_latency_cases(2) [OF assms(4) tb caught]
  let ?rep = "dump_report b dt input_shapes 0 ''RUN_OP_ERROR''"
  have ret: "perf e b input_shapes dtype w =
      (Inr ?rep, w8\<lparr>trace := trace w8 @ [DelTensorList, EmptyCache, DumpReport (kind ?rep)]\<rparr>)"
    using perf_returns [OF assms(2,3) ml] by simp
  have fields: "latency ?rep = 0 \<and> error ?rep = ''RUN_OP_ERROR''" by simp
  from core tb ret fields
  have "\<exists>w8 rep. core_perf e b 0 pool w7 = (Inl ZeroDivisionError, w8)
            \<and> try_body e b pool w = (Inl ZeroDivisionError, w8)
            \<and> perf e b input_shapes dtype w =
                (Inr rep, w8\<lparr>trace := trace w8 @ [DelTensorList, EmptyCache,
                                 DumpReport (kind rep)]\<rparr>)
            \<and> latency rep = 0 \<and> error rep = ''RUN_OP_ERROR''"
    by blast
  with plan body show ?thesis by blast
qed

theorem zero_iterations_run_op_error_witness:
  "prefer_iterations (avg_op_duration 0 5000000) 0 = Inr 0
   \<and> (\<exists>w8 rep. try_body (example_env ms_clock)
           (example_backend ''allreduce'' 0 (Some ok_operator) 1) [TensorSet [0, 1]] world0
         = (Inl ZeroDivisionError, w8)
       \<and> perf (example_env ms_clock)
           (example_backend ''allreduce'' 0 (Some ok_operator) 1) [[1024]] ''float32'' world0
         = (Inr rep, w8\<lparr>trace := trace w8 @ [DelTensorList, EmptyCache,
                          DumpReport (kind rep)]\<rparr>)
       \<and> latency rep = 0 \<and> error rep = ''RUN_OP_ERROR'')"
proof -
  let ?e = "example_env ms_clock"
  let ?b = "example_backend ''allreduce'' 0 (Some ok_operator) 1"
  let ?w2 = "\<lparr>trace = [DeviceSynchronize, Barrier, RunOp [0, 1], RunOp [0, 1], RunOp [0, 1],
                      RunOp [0, 1], RunOp [0, 1]],
              clock_reads = 0, choices = 5, op_calls = 5\<rparr>"
  let ?w5 = "\<lparr>trace = [DeviceSynchronize, Barrier, RunOp [0, 1], RunOp [0, 1], RunOp [0, 1],
                      RunOp [0, 1], RunOp [0, 1], DeviceSynchronize, Barrier, PerfCounterNs,
                      RunOp [0, 1], RunOp [0, 1], RunOp [0, 1], RunOp [0, 1], RunOp [0, 1]],
              clock_reads = 1, choices = 10, op_calls = 10\<rparr>"
  have zero: "iterations ?b = 0" by (simp add: example_backend_def)
  have dt: "torch_attr ?e ''float32'' = Some (TorchDtype ''float32'')"
    by (simp add: example_env_def)
  have pool: "build_tensor ?e ?b [[1024]] (TorchDtype ''float32'') = Inr [TensorSet [0, 1]]"
    by (simp add: example_defs build_tensor_defs)
  have warm: "choice_loop ?e ?b [TensorSet [0, 1]] warm_iterations
      (barrier (device_synchronize world0)) = (Inr (), ?w2)"
    by (simp add: example_defs perf_defs choice_loop_numeral)
  have test: "choice_loop ?e ?b [TensorSet [0, 1]] test_iterations
      (snd (time_perf_counter_ns ?e (barrier (device_synchronize ?w2)))) = (Inr (), ?w5)"
    by (simp add: example_defs perf_defs choice_loop_numeral)
  have avg: "avg_op_duration 0 5000000 =
      avg_op_duration (perf_counter_ns ?e (clock_reads world0))
        (perf_counter_ns ?e (Suc (clock_reads world0)))"
    by (simp add: example_env_def ms_clock_def world0_def)
  have pos: "0 < avg_op_duration 0 5000000" and le: "avg_op_duration 0 5000000 \<le> 10"
    by (simp_all add: avg_op_duration_def test_iterations_def)
  have ne: "[TensorSet [0, 1]] \<noteq> []" by simp
  note chain = zero_iterations_run_op_error [OF zero dt pool ne warm test refl avg pos le]
  from chain have "prefer_iterations (avg_op_duration 0 5000000) (iterations ?b) = Inr 0"
    by (rule conjunct1)
  then have planned: "prefer_iterations (avg_op_duration 0 5000000) 0 = Inr 0"
    by (simp only: zero)
  from chain obtain w8 rep
    where "try_body ?e ?b [TensorSet [0, 1]] world0 = (Inl ZeroDivisionError, w8)"
      and "perf ?e ?b [[1024]] ''float32'' world0 =
          (Inr rep, w8\<lparr>trace := trace w8 @ [DelTensorList, EmptyCache, DumpReport (kind rep)]\<rparr>)"
      and "latency rep = 0" and "error rep = ''RUN_OP_ERROR''"
    by blast
  with planned show ?thesis by blast
qed

subsection \<open>C10: a byte-size tuple of the wrong length\<close>

text \<open>
  C10: when the byte-size function returns a tuple whose length is neither 4 nor 5,
  \<open>tensor_size\<close> is never bound and \<open>build_tensor\<close> raises: \<open>UnboundLocalError\<close> at the
  first comparison, or \<open>NotImplementedError\<close> from the lookup of the tensor constructor
  in line 147, should the operator have none. \<open>perf\<close> calls \<open>build_tensor\<close> before its
  \<open>try\<close>, so the exception leaves \<open>perf\<close> and nothing has happened in the world.
\<close>

theorem short_tuple_raises:
  assumes "default_op_compute_size_registry e (op_name b) = Some size_f"
    and "size_f input_shapes dt = Inr result"
    and "length result \<noteq> 4" and "length result \<noteq> 5"
    and "torch_attr e dtype = Some dt"
  shows "build_tensor e b input_shapes dt =
       Inl (if default_op_create_tensors_registry e (op_name b) = None
            then NotImplementedError else UnboundLocalError)
     \<and> perf e b input_shapes dtype w =
       (Inl (if default_op_create_tensors_registry e (op_name b) = None
             then NotImplementedError else UnboundLocalError), w)"
proof -
  have "build_tensor e b input_shapes dt =
       Inl (if default_op_create_tensors_registry e (op_name b) = None
            then NotImplementedError else UnboundLocalError)"
    using assms(1-4)
    by (auto simp: build_tensor_def get_op_compute_size_func_def get_op_create_tensors_func_def
        select_tensor_size_def)
  with perf_propagates(2) [OF assms(5) this] show ?thesis by simp
qed

theorem short_tuple_raises_witness:
  "build_tensor (example_env ms_clock) (example_backend ''short'' 3 (Some ok_operator) 1)
     [[1024]] (TorchDtype ''float32'') = Inl UnboundLocalError
   \<and> perf (example_env ms_clock) (example_backend ''short'' 3 (Some ok_operator) 1)
     [[1024]] ''float32'' world0 = (Inl UnboundLocalError, world0)"
  using short_tuple_raises [of "example_env ms_clock"
      "example_backend ''short'' 3 (Some ok_operator) 1" short_compute_size "[[1024]]"
      "TorchDtype ''float32''" "[1, 8, 4]" "''float32''" world0]
  by (simp add: example_defs)

end
